theory Spec2Isabelle
  imports Main "HOL-Library.Char_ord"
begin

section \<open>JavaScript values\<close>

text \<open>
  A string is the list of the bytes of its UTF-8 encoding, one \<^typ>\<open>char\<close> each (for ASCII
  text, one per character). The bytes of \<open>/\<close> and \<open>-\<close> occur in the encoding of no other
  character, so comparing, concatenating and replacing \<open>/\<close> byte by byte is comparing,
  concatenating and replacing it character by character. (A string with an unpaired
  surrogate has no UTF-8 encoding; branch names, read from the environment, have one.)

  \<open>String.prototype.toLowerCase\<close> is a built-in of the platform, driven by the Unicode
  case tables. It is not modelled: the functions that call it take it as their first
  argument \<open>toLowerCase\<close>, and whatever a theorem needs of it is a stated hypothesis.

  A plain object (\<open>environment_variables\<close>, the secrets) is the list of its entries in
  the order \<open>Object.entries\<close> yields them. A value that may be \<open>undefined\<close> or \<open>null\<close>
  is an \<open>option\<close>.

  A number is a double. The doubles that are safe integers (at most \<open>2^53 - 1\<close> in
  absolute value) are the type \<open>safe_int\<close> (\<open>safe_integer n\<close> for \<open>n\<close> in that range), and
  \<open>String\<close> prints them in decimal. How
  \<open>String\<close> prints any other value (a fraction, a number beyond the safe range, an array,
  an object) is floating-point formatting or recursion that is not modelled: such a
  value is \<open>JOther\<close>, carrying the text that \<open>String\<close> returns for it.
\<close>

typedef safe_int = "{n :: int. - 9007199254740991 \<le> n \<and> n \<le> 9007199254740991}"
  morphisms int_of_safe safe_integer
  by (rule exI [of _ 0]) simp

datatype js_value =
    JString string
  | JInteger safe_int
  | JBoolean bool
  | JNull
  | JOther string

definition digitChar :: "nat \<Rightarrow> char" where
  "digitChar d = char_of (48 + d)"

fun natToString :: "nat \<Rightarrow> string" where
  "natToString n =
     (if n < 10 then [digitChar n] else natToString (n div 10) @ [digitChar (n mod 10)])"

declare natToString.simps [simp del]

definition intToString :: "int \<Rightarrow> string" where
  "intToString i = (if i < 0 then CHR ''-'' # natToString (nat (- i)) else natToString (nat i))"

text \<open>\<open>String(value)\<close>.\<close>

fun js_String :: "js_value \<Rightarrow> string" where
  "js_String (JString s) = s"
| "js_String (JInteger n) = intToString (int_of_safe n)"
| "js_String (JBoolean b) = (if b then ''true'' else ''false'')"
| "js_String JNull = ''null''"
| "js_String (JOther rendering) = rendering"

text \<open>\<open>value || fallback\<close> on a string that may be undefined: the empty string is falsy.\<close>

definition or_string :: "string option \<Rightarrow> string \<Rightarrow> string" where
  "or_string v fallback =
     (case v of None \<Rightarrow> fallback | Some s \<Rightarrow> if s = [] then fallback else s)"

text \<open>\<open>value || fallback\<close> on an array that may be undefined: every array is truthy.\<close>

definition or_array :: "'a list option \<Rightarrow> 'a list \<Rightarrow> 'a list" where
  "or_array v fallback = (case v of None \<Rightarrow> fallback | Some xs \<Rightarrow> xs)"

text \<open>\<open>s.replace(/\//g, '-')\<close>: every occurrence, scanning left to right.\<close>

fun replace_slash :: "string \<Rightarrow> string" where
  "replace_slash [] = []"
| "replace_slash (c # cs) = (if c = CHR ''/'' then CHR ''-'' else c) # replace_slash cs"

definition push :: "'a list \<Rightarrow> 'a \<Rightarrow> 'a list" where
  "push xs x = xs @ [x]"


section \<open>Naming (lib/utils.mjs)\<close>

text \<open>
  \<open>branch.replace(/\//g, '-').toLowerCase()\<close>, with the platform's \<open>toLowerCase\<close> as the
  first argument.
\<close>

definition normalizeBranchName :: "(string \<Rightarrow> string) \<Rightarrow> string \<Rightarrow> string" where
  "normalizeBranchName toLowerCase branch = toLowerCase (replace_slash branch)"

definition isProduction :: "string \<Rightarrow> string \<Rightarrow> bool" where
  "isProduction branch productionBranch \<longleftrightarrow> branch = productionBranch"

definition getWorkerName ::
  "(string \<Rightarrow> string) \<Rightarrow> string \<Rightarrow> string \<Rightarrow> string \<Rightarrow> string" where
  "getWorkerName toLowerCase baseName branch productionBranch =
     (if isProduction branch productionBranch then baseName
      else (let normalizedBranch = normalizeBranchName toLowerCase branch
            in normalizedBranch @ ''-'' @ baseName))"


section \<open>Binding translation (lib/workers.mjs)\<close>

record kv_namespace =
  kv_binding :: string
  kv_id :: string

record d1_database =
  d1_binding :: string
  d1_database_id :: string

record r2_bucket =
  r2_binding :: string
  r2_bucket_name :: string

record bindings_config =
  environment_variables :: "(string \<times> js_value) list option"
  kv_namespaces :: "kv_namespace list option"
  d1_databases :: "d1_database list option"
  r2_buckets :: "r2_bucket list option"

text \<open>
  The records pushed onto the result, tagged by their \<open>type\<close> field: the first argument
  is \<open>name\<close>, the second \<open>text\<close>, \<open>namespace_id\<close>, \<open>id\<close> or \<open>bucket_name\<close>.
\<close>

datatype binding =
    PlainText string string
  | SecretText string string
  | KvNamespace string string
  | D1 string string
  | R2Bucket string string

fun binding_name :: "binding \<Rightarrow> string" where
  "binding_name (PlainText n _) = n"
| "binding_name (SecretText n _) = n"
| "binding_name (KvNamespace n _) = n"
| "binding_name (D1 n _) = n"
| "binding_name (R2Bucket n _) = n"

text \<open>
  \<open>bindingsConfig?.field\<close> is \<open>Option.bind\<close>; \<open>if (x) for (... of x) bindings.push(...)\<close>
  folds \<open>push\<close> over the entries when \<open>x\<close> is present.
\<close>

definition buildBindings ::
  "bindings_config option \<Rightarrow> (string \<times> js_value) list option \<Rightarrow> binding list" where
  "buildBindings bindingsConfig secrets =
     (let bindings = [];
          bindings =
            (case Option.bind bindingsConfig environment_variables of
               Some entries \<Rightarrow>
                 fold (\<lambda>(name, val) bs. push bs (PlainText name (js_String val))) entries bindings
             | None \<Rightarrow> bindings);
          bindings =
            (case secrets of
               Some entries \<Rightarrow>
                 fold (\<lambda>(name, val) bs. push bs (SecretText name (js_String val))) entries bindings
             | None \<Rightarrow> bindings);
          bindings =
            (case Option.bind bindingsConfig kv_namespaces of
               Some kvs \<Rightarrow>
                 fold (\<lambda>kv bs. push bs (KvNamespace (kv_binding kv) (kv_id kv))) kvs bindings
             | None \<Rightarrow> bindings);
          bindings =
            (case Option.bind bindingsConfig d1_databases of
               Some d1s \<Rightarrow>
                 fold (\<lambda>d1 bs. push bs (D1 (d1_binding d1) (d1_database_id d1))) d1s bindings
             | None \<Rightarrow> bindings);
          bindings =
            (case Option.bind bindingsConfig r2_buckets of
               Some r2s \<Rightarrow>
                 fold (\<lambda>r2 bs. push bs (R2Bucket (r2_binding r2) (r2_bucket_name r2))) r2s bindings
             | None \<Rightarrow> bindings)
      in bindings)"

text \<open>The entries of an optional collection; an absent collection has none.\<close>

definition entries_of :: "'a list option \<Rightarrow> 'a list" where
  "entries_of v = (case v of None \<Rightarrow> [] | Some xs \<Rightarrow> xs)"


section \<open>Effects\<close>

text \<open>
  Everything the two deployment functions do beyond computing values is an event of a
  trace, in program order: console output, calls to the Cloudflare client, the build
  subprocess, file reads, and lines appended to the output file. A \<open>console.error\<close>
  call with several arguments is one line, the arguments joined by a space.
\<close>

record js_error =
  err_status :: "nat option"
  err_message :: string
  err_errors :: "string option"  \<comment> \<open>\<open>JSON.stringify(err.errors, null, 2)\<close> when \<open>err.errors\<close> is truthy\<close>

record remote_source =
  rs_type :: string

record remote_project =
  rp_name :: string
  rp_subdomain :: "string option"
  rp_source :: "remote_source option"

record github_config =
  gh_owner :: string
  gh_repo_name :: string
  gh_production_branch :: string
  gh_deployments_enabled :: bool
  gh_production_deployments_enabled :: bool
  gh_preview_deployment_setting :: string
  gh_preview_branch_includes :: "string list"
  gh_preview_branch_excludes :: "string list"

record source_config =
  src_type :: string
  src_config :: github_config

record build_config =
  build_command :: string
  destination_dir :: string
  root_dir :: string

record create_params =
  cr_account_id :: string
  cr_name :: string
  cr_production_branch :: string
  cr_source :: source_config
  cr_build_config :: build_config

record deployment_configs =
  dc_preview :: "(string \<times> js_value) list"
  dc_production :: "(string \<times> js_value) list"

record edit_params =
  ed_account_id :: string
  ed_production_branch :: string
  ed_source :: source_config
  ed_build_config :: build_config
  ed_deployment_configs :: deployment_configs

record script_file =
  file_content :: string
  file_name :: string
  file_type :: string

record script_metadata =
  main_module :: string
  md_compatibility_date :: "string option"
  md_compatibility_flags :: "string list"
  md_bindings :: "binding list"

record update_params =
  up_account_id :: string
  up_metadata :: script_metadata
  up_files :: "script_file list"

record subdomain_info =
  sd_subdomain :: string

text \<open>
  The arguments of the events: \<open>AppendFile file text\<close>; \<open>PagesGet name account_id\<close>;
  \<open>PagesCreate params\<close>; \<open>PagesEdit name params\<close>; \<open>PagesDelete name account_id\<close>;
  \<open>ExecSync command cwd\<close>; \<open>ReadFile path\<close>; \<open>ScriptsUpdate name params\<close>;
  \<open>SubdomainsGet account_id\<close>.
\<close>

datatype event =
    ConsoleLog string
  | ConsoleError string
  | AppendFile string string
  | PagesGet string string
  | PagesCreate create_params
  | PagesEdit string edit_params
  | PagesDelete string string
  | ExecSync string string
  | ReadFile string
  | ScriptsUpdate string update_params
  | SubdomainsGet string

text \<open>
  The Cloudflare client. Each operation answers from the side effects so far (so a
  second lookup may answer differently from the first) and its arguments; \<open>Inl\<close> is a rejected
  promise. \<open>get\<close> resolves to the project record, or to a falsy value (\<open>None\<close>).
\<close>

record client =
  pages_projects_get :: "event list \<Rightarrow> string \<Rightarrow> string \<Rightarrow> js_error + remote_project option"
  pages_projects_create :: "event list \<Rightarrow> create_params \<Rightarrow> js_error + unit"
  pages_projects_edit :: "event list \<Rightarrow> string \<Rightarrow> edit_params \<Rightarrow> js_error + unit"
  pages_projects_delete :: "event list \<Rightarrow> string \<Rightarrow> string \<Rightarrow> js_error + unit"
  workers_scripts_update :: "event list \<Rightarrow> string \<Rightarrow> update_params \<Rightarrow> js_error + unit"
  workers_subdomains_get :: "event list \<Rightarrow> string \<Rightarrow> js_error + subdomain_info"

text \<open>
  The local machine and the platform: the \<open>GITHUB_OUTPUT\<close> environment variable,
  \<open>execSync\<close> (command, working directory), \<open>readFileSync\<close>, and the built-ins
  \<open>path.basename\<close> and \<open>String.prototype.toLowerCase\<close>.
\<close>

record system =
  sys_GITHUB_OUTPUT :: "string option"
  sys_execSync :: "event list \<Rightarrow> string \<Rightarrow> string \<Rightarrow> js_error + unit"
  sys_readFileSync :: "event list \<Rightarrow> string \<Rightarrow> js_error + string"
  sys_basename :: "string \<Rightarrow> string"
  sys_toLowerCase :: "string \<Rightarrow> string"

text \<open>The calls to the Pages project API in a trace, in order.\<close>

fun is_pages_call :: "event \<Rightarrow> bool" where
  "is_pages_call (PagesGet _ _) = True"
| "is_pages_call (PagesCreate _) = True"
| "is_pages_call (PagesEdit _ _) = True"
| "is_pages_call (PagesDelete _ _) = True"
| "is_pages_call _ = False"

definition pages_calls :: "event list \<Rightarrow> event list" where
  "pages_calls t = filter is_pages_call t"

text \<open>Everything in a trace that is not console output.\<close>

fun is_console :: "event \<Rightarrow> bool" where
  "is_console (ConsoleLog _) = True"
| "is_console (ConsoleError _) = True"
| "is_console _ = False"

definition side_effects :: "event list \<Rightarrow> event list" where
  "side_effects t = filter (\<lambda>e. \<not> is_console e) t"

text \<open>The names under which scripts were uploaded, in order.\<close>

fun uploaded_names :: "event list \<Rightarrow> string list" where
  "uploaded_names [] = []"
| "uploaded_names (ScriptsUpdate n _ # t) = n # uploaded_names t"
| "uploaded_names (_ # t) = uploaded_names t"

text \<open>How a run ends: a returned value, a thrown error, or \<open>process.exit\<close>.\<close>

datatype 'a outcome = Returned 'a | Thrown js_error | Exited nat

type_synonym 'a io = "event list \<Rightarrow> event list \<times> 'a outcome"

definition return :: "'a \<Rightarrow> 'a io" where
  "return x = (\<lambda>t. (t, Returned x))"

definition throw :: "js_error \<Rightarrow> 'a io" where
  "throw err = (\<lambda>t. (t, Thrown err))"

definition process_exit :: "nat \<Rightarrow> 'a io" where
  "process_exit code = (\<lambda>t. (t, Exited code))"

text \<open>Sequencing: a thrown error or an exit skips the rest.\<close>

definition bind :: "'a io \<Rightarrow> ('a \<Rightarrow> 'b io) \<Rightarrow> 'b io" where
  "bind m f = (\<lambda>t. case m t of
                      (t', Returned x) \<Rightarrow> f x t'
                    | (t', Thrown err) \<Rightarrow> (t', Thrown err)
                    | (t', Exited code) \<Rightarrow> (t', Exited code))"

text \<open>\<open>try { m } catch (err) { handler }\<close>.\<close>

definition try_catch :: "'a io \<Rightarrow> (js_error \<Rightarrow> 'a io) \<Rightarrow> 'a io" where
  "try_catch m handler = (\<lambda>t. case m t of
                                 (t', Thrown err) \<Rightarrow> handler err t'
                               | (t', Returned x) \<Rightarrow> (t', Returned x)
                               | (t', Exited code) \<Rightarrow> (t', Exited code))"

definition console_log :: "string list \<Rightarrow> unit io" where
  "console_log lines = (\<lambda>t. (t @ map ConsoleLog lines, Returned ()))"

definition console_error :: "string list \<Rightarrow> unit io" where
  "console_error lines = (\<lambda>t. (t @ map ConsoleError lines, Returned ()))"

text \<open>
  A call to the outside: it is recorded, and answered from the side effects before it
  (console output is not something a remote service or the file system can see).
\<close>

definition await :: "event \<Rightarrow> (event list \<Rightarrow> js_error + 'a) \<Rightarrow> 'a io" where
  "await ev respond = (\<lambda>t. (t @ [ev], case respond (side_effects t) of
                                          Inl err \<Rightarrow> Thrown err
                                        | Inr x \<Rightarrow> Returned x))"

definition setOutput :: "system \<Rightarrow> string \<Rightarrow> string \<Rightarrow> unit io" where
  "setOutput sys name val =
     (let outputFile = sys_GITHUB_OUTPUT sys
      in case outputFile of
           None \<Rightarrow> return ()
         | Some file \<Rightarrow>
             if file = [] then return ()
             else (\<lambda>t. (t @ [AppendFile file (name @ ''='' @ val @ ''\<newline>'')], Returned ())))"

section \<open>Configuration (cloudflare.json)\<close>

text \<open>
  The parsed configuration. JavaScript reuses field names across objects (\<open>name\<close>,
  \<open>production_branch\<close>, \<open>binding\<close>), so each record's fields carry a prefix. A field that
  may be missing is an \<open>option\<close>. \<open>wk_name\<close> is the worker's own \<open>name\<close> field, which the
  configuration may declare.
\<close>

record repo_config =
  repo_owner :: string
  repo_name :: string

record preview_config =
  pv_branches :: "string list option"
  pv_exclude :: "string list option"

record build_settings =
  bs_command :: "string option"
  bs_output :: "string option"
  bs_root :: "string option"

record worker_config =
  wk_name :: "string option"
  wk_main :: string
  wk_build_command :: "string option"
  wk_compatibility_date :: "string option"
  wk_compatibility_flags :: "string list option"
  wk_deploy_previews :: "bool option"
  wk_bindings :: "bindings_config option"

record config =
  cfg_name :: string
  cfg_repo :: repo_config
  cfg_production_branch :: string
  cfg_preview :: "preview_config option"
  cfg_build :: "build_settings option"
  cfg_worker :: "worker_config option"


section \<open>Project reconciliation (syncPages)\<close>

definition sourceConfig_of :: "config \<Rightarrow> source_config" where
  "sourceConfig_of config =
     \<lparr>src_type = ''github'',
      src_config =
        \<lparr>gh_owner = repo_owner (cfg_repo config),
         gh_repo_name = repo_name (cfg_repo config),
         gh_production_branch = cfg_production_branch config,
         gh_deployments_enabled = True,
         gh_production_deployments_enabled = True,
         gh_preview_deployment_setting = ''all'',
         gh_preview_branch_includes =
           or_array (Option.bind (cfg_preview config) pv_branches) [''*''],
         gh_preview_branch_excludes =
           or_array (Option.bind (cfg_preview config) pv_exclude) []\<rparr>\<rparr>"

definition buildConfig_of :: "config \<Rightarrow> build_config" where
  "buildConfig_of config =
     \<lparr>build_command = or_string (Option.bind (cfg_build config) bs_command) [],
      destination_dir = or_string (Option.bind (cfg_build config) bs_output) ''.'',
      root_dir = or_string (Option.bind (cfg_build config) bs_root) []\<rparr>"

definition createParams_of :: "string \<Rightarrow> config \<Rightarrow> create_params" where
  "createParams_of accountId config =
     \<lparr>cr_account_id = accountId,
      cr_name = cfg_name config,
      cr_production_branch = cfg_production_branch config,
      cr_source = sourceConfig_of config,
      cr_build_config = buildConfig_of config\<rparr>"

definition editParams_of :: "string \<Rightarrow> config \<Rightarrow> edit_params" where
  "editParams_of accountId config =
     \<lparr>ed_account_id = accountId,
      ed_production_branch = cfg_production_branch config,
      ed_source = sourceConfig_of config,
      ed_build_config = buildConfig_of config,
      ed_deployment_configs = \<lparr>dc_preview = [], dc_production = []\<rparr>\<rparr>"

text \<open>
  The \<open>try\<close>/\<open>catch\<close> around the first lookup: the value left in \<open>existingProject\<close>.
\<close>

definition lookupProject :: "client \<Rightarrow> string \<Rightarrow> config \<Rightarrow> remote_project option io" where
  "lookupProject client accountId config =
     try_catch
       (bind (await (PagesGet (cfg_name config) accountId)
                (\<lambda>t. pages_projects_get client t (cfg_name config) accountId))
          (\<lambda>existingProject.
       bind (console_log [''\<newline>Project exists, checking configuration...''])
          (\<lambda>_. return existingProject)))
       (\<lambda>err.
          if err_status err = Some 404
          then bind (console_log [''\<newline>Project does not exist, creating...''])
                 (\<lambda>_. return None)
          else throw err)"

definition hasGitHubSource :: "remote_project \<Rightarrow> bool" where
  "hasGitHubSource existingProject \<longleftrightarrow>
     map_option rs_type (rp_source existingProject) = Some ''github''"

text \<open>The six \<open>console.error\<close> lines written before the process exits.\<close>

definition recreate_diagnostic :: "string list" where
  \<open>recreate_diagnostic =
     [''\<newline>ERROR: Project exists as a Direct Upload project.'',
      ''To migrate to GitHub integration, the project must be deleted and recreated.'',
      ''\<newline>To allow this, either:'',
      ''  1. Run the workflow manually with "Allow recreate" checked'',
      ''  2. Add "allow_recreate": true to cloudflare.json (then remove it after)'',
      ''\<newline>WARNING: This will delete all existing deployments and history!'']\<close>

record pages_result =
  pagesUrl :: string

definition syncPages ::
  "client \<Rightarrow> system \<Rightarrow> string \<Rightarrow> config \<Rightarrow> bool \<Rightarrow> pages_result io" where
  \<open>syncPages client sys accountId config allowRecreate =
     bind (console_log
             [''\<newline>=== Pages Configuration ==='',
              ''Project: '' @ cfg_name config,
              ''Repo: '' @ repo_owner (cfg_repo config) @ ''/'' @ repo_name (cfg_repo config),
              ''Production branch: '' @ cfg_production_branch config]) (\<lambda>_.
     bind (lookupProject client accountId config) (\<lambda>existingProject.
     bind
       (case existingProject of
          Some project \<Rightarrow>
            if \<not> hasGitHubSource project then
              bind
                (if \<not> allowRecreate then
                   bind (console_error recreate_diagnostic)
                     (\<lambda>_. process_exit 1)
                 else return ()) (\<lambda>_.
              bind (console_log
                      [''Project is a Direct Upload project, deleting to recreate with GitHub source...''])
                (\<lambda>_.
              bind (await (PagesDelete (cfg_name config) accountId)
                      (\<lambda>t. pages_projects_delete client t (cfg_name config) accountId)) (\<lambda>_.
              bind (console_log [''Project deleted, recreating with GitHub integration...''])
                (\<lambda>_.
              bind (await (PagesCreate (createParams_of accountId config))
                      (\<lambda>t. pages_projects_create client t (createParams_of accountId config)))
                (\<lambda>_.
              console_log [''Project recreated with GitHub integration!''])))))
            else
              bind (console_log [''Updating existing GitHub-connected project...'']) (\<lambda>_.
              bind (await (PagesEdit (cfg_name config) (editParams_of accountId config))
                      (\<lambda>t. pages_projects_edit client t (cfg_name config)
                             (editParams_of accountId config))) (\<lambda>_.
              console_log [''Configuration updated successfully'']))
        | None \<Rightarrow>
            bind (await (PagesCreate (createParams_of accountId config))
                    (\<lambda>t. pages_projects_create client t (createParams_of accountId config)))
              (\<lambda>_.
            console_log
              [''Project created with GitHub integration!'',
               ''Cloudflare will now auto-deploy on every push.''])) (\<lambda>_.
     (let pagesUrl = ''https://'' @ cfg_name config @ ''.pages.dev'' in
      bind (console_log
              [''\<newline>Pages URL: '' @ pagesUrl,
               ''Dashboard: https://dash.cloudflare.com/'' @ accountId @ ''/pages/view/''
                 @ cfg_name config]) (\<lambda>_.
      bind (setOutput sys ''pages-url'' pagesUrl) (\<lambda>_.
      return \<lparr>pagesUrl = pagesUrl\<rparr>))))))\<close>


section \<open>Artifact publication (syncWorker)\<close>

record worker_result =
  workerName :: string
  workerUrl :: string

definition runBuild :: "system \<Rightarrow> string \<Rightarrow> string \<Rightarrow> unit io" where
  "runBuild sys buildCommand workingDir =
     (if buildCommand = [] then return ()
      else
        bind (console_log [''Running build command: '' @ buildCommand]) (\<lambda>_.
        try_catch
          (bind (await (ExecSync buildCommand workingDir)
                   (\<lambda>t. sys_execSync sys t buildCommand workingDir)) (\<lambda>_.
           console_log [''Build completed successfully'']))
          (\<lambda>err.
             bind (console_error [''Build failed: '' @ err_message err]) (\<lambda>_.
             throw err))))"

text \<open>
  The two \<open>try\<close> blocks of \<open>syncWorker\<close>, named so that each can be reasoned about on
  its own: reading the entry point, and uploading the script and composing its URL
  (\<open>scriptName\<close> is the caller's \<open>workerName\<close>).
\<close>

definition readWorkerScript :: "system \<Rightarrow> string \<Rightarrow> string io" where
  "readWorkerScript sys scriptPath =
     try_catch
       (await (ReadFile scriptPath) (\<lambda>t. sys_readFileSync sys t scriptPath))
       (\<lambda>err.
          bind (console_error
                  [''Failed to read worker script at '' @ scriptPath @ '': ''
                     @ err_message err]) (\<lambda>_.
          throw err))"

definition uploadWorkerScript ::
  "client \<Rightarrow> system \<Rightarrow> string \<Rightarrow> string \<Rightarrow> script_metadata \<Rightarrow> string \<Rightarrow> string
     \<Rightarrow> worker_result option io" where
  "uploadWorkerScript client sys accountId scriptName metadata scriptContent mainModule =
     try_catch
       (let scriptFile =
              \<lparr>file_content = scriptContent,
               file_name = mainModule,
               file_type = ''application/javascript+module''\<rparr>;
            params =
              \<lparr>up_account_id = accountId,
               up_metadata = metadata,
               up_files = [scriptFile]\<rparr>
        in
        bind (console_log [''Uploading worker script...'']) (\<lambda>_.
        bind (await (ScriptsUpdate scriptName params)
                (\<lambda>t. workers_scripts_update client t scriptName params)) (\<lambda>_.
        bind (console_log [''Worker script deployed successfully.'']) (\<lambda>_.
        bind (await (SubdomainsGet accountId)
                (\<lambda>t. workers_subdomains_get client t accountId)) (\<lambda>subdomainInfo.
        (let workerUrl =
               ''https://'' @ scriptName @ ''.'' @ sd_subdomain subdomainInfo
                 @ ''.workers.dev'' in
         bind (console_log [''\<newline>Worker URL: '' @ workerUrl]) (\<lambda>_.
         bind (setOutput sys ''worker-url'' workerUrl) (\<lambda>_.
         bind (setOutput sys ''worker-name'' scriptName) (\<lambda>_.
         return (Some \<lparr>workerName = scriptName, workerUrl = workerUrl\<rparr>))))))))))
       (\<lambda>err.
          bind (console_error [''Worker deployment failed: '' @ err_message err]) (\<lambda>_.
          bind (case err_errors err of
                  Some details \<Rightarrow> console_error [''Details: '' @ details]
                | None \<Rightarrow> return ()) (\<lambda>_.
          throw err)))"

definition syncWorker ::
  "client \<Rightarrow> system \<Rightarrow> string \<Rightarrow> config \<Rightarrow> string \<Rightarrow> (string \<times> js_value) list option
     \<Rightarrow> string \<Rightarrow> worker_result option io" where
  "syncWorker client sys accountId config branch secrets workingDir =
     (case cfg_worker config of
        None \<Rightarrow>
          bind (console_log [''\<newline>No worker configuration found, skipping worker deployment.''])
            (\<lambda>_. return None)
      | Some workerConfig \<Rightarrow>
          (let isProductionDeploy = isProduction branch (cfg_production_branch config) in
           if \<not> isProductionDeploy \<and> wk_deploy_previews workerConfig = Some False then
             bind (console_log [''\<newline>Preview worker deployments disabled, skipping.''])
               (\<lambda>_. return None)
           else
             (let workerName =
                    getWorkerName (sys_toLowerCase sys) (cfg_name config) branch
                      (cfg_production_branch config) in
              bind (console_log
                      [''\<newline>=== Worker Deployment ==='',
                       ''Worker name: '' @ workerName,
                       ''Entry point: '' @ wk_main workerConfig,
                       ''Branch: '' @ branch @ '' (''
                         @ (if isProductionDeploy then ''production'' else ''preview'')
                         @ '')'']) (\<lambda>_.
              bind (case wk_build_command workerConfig of
                      None \<Rightarrow> return ()
                    | Some buildCommand \<Rightarrow>
                        if buildCommand = [] then return ()
                        else runBuild sys buildCommand workingDir) (\<lambda>_.
              (let scriptPath = workingDir @ ''/'' @ wk_main workerConfig in
               bind (readWorkerScript sys scriptPath) (\<lambda>scriptContent.
               (let bindings = buildBindings (wk_bindings workerConfig) secrets;
                    mainModule = sys_basename sys (wk_main workerConfig);
                    metadata =
                      \<lparr>main_module = mainModule,
                       md_compatibility_date = wk_compatibility_date workerConfig,
                       md_compatibility_flags =
                         or_array (wk_compatibility_flags workerConfig) [],
                       md_bindings = bindings\<rparr>
                in uploadWorkerScript client sys accountId workerName metadata
                     scriptContent mainModule))))))))"


section \<open>Test fixtures\<close>

text \<open>
  The mock client of the test suite: \<open>create\<close>, \<open>edit\<close>, \<open>delete\<close> and the script upload
  resolve, the account's subdomain is \<open>myaccount\<close>, and the lookup is given by the test.
\<close>

definition mockClient :: "(event list \<Rightarrow> js_error + remote_project option) \<Rightarrow> client" where
  "mockClient get =
     \<lparr>pages_projects_get = (\<lambda>t _ _. get t),
      pages_projects_create = (\<lambda>_ _. Inr ()),
      pages_projects_edit = (\<lambda>_ _ _. Inr ()),
      pages_projects_delete = (\<lambda>_ _ _. Inr ()),
      workers_scripts_update = (\<lambda>_ _ _. Inr ()),
      workers_subdomains_get = (\<lambda>_ _. Inr \<lparr>sd_subdomain = ''myaccount''\<rparr>)\<rparr>"

text \<open>\<open>mockResolvedValueOnce\<close>: one answer for the first lookup, another afterwards.\<close>

definition once_then :: "'a \<Rightarrow> 'a \<Rightarrow> event list \<Rightarrow> 'a" where
  "once_then first later t = (if pages_calls t = [] then first else later)"

definition notFound :: js_error where
  "notFound = \<lparr>err_status = Some 404, err_message = ''Not Found'', err_errors = None\<rparr>"

definition directUploadProject :: remote_project where
  "directUploadProject =
     \<lparr>rp_name = ''my-project'', rp_subdomain = None,
      rp_source = Some \<lparr>rs_type = ''direct_upload''\<rparr>\<rparr>"

definition noSourceProject :: remote_project where
  "noSourceProject = \<lparr>rp_name = ''my-project'', rp_subdomain = None, rp_source = None\<rparr>"

definition customSubdomainProject :: remote_project where
  "customSubdomainProject =
     \<lparr>rp_name = ''my-project'',
      rp_subdomain = Some ''custom-prefix-my-project.pages.dev'',
      rp_source = Some \<lparr>rs_type = ''github''\<rparr>\<rparr>"

text \<open>The lookups of the tests: not found, a Direct Upload project, a project with no source.\<close>

definition absentClient :: client where
  "absentClient = mockClient (\<lambda>_. Inl notFound)"

definition directUploadClient :: client where
  "directUploadClient = mockClient (\<lambda>_. Inr (Some directUploadProject))"

definition noSourceClient :: client where
  "noSourceClient = mockClient (\<lambda>_. Inr (Some noSourceProject))"

text \<open>
  The test where the project is created and a second lookup would report the subdomain the
  platform assigned.
\<close>

definition refetchClient :: client where
  "refetchClient = mockClient (once_then (Inl notFound) (Inr (Some customSubdomainProject)))"

text \<open>
  A lower-casing for the concrete runs: the letters \<open>A\<close> to \<open>Z\<close> go to \<open>a\<close> to \<open>z\<close> and
  every other byte stays, which is what \<open>toLowerCase\<close> does to a string whose only cased
  letters are ASCII, as in the names of the tests.
\<close>

definition asciiLowerChar :: "char \<Rightarrow> char" where
  "asciiLowerChar c =
     (if CHR ''A'' \<le> c \<and> c \<le> CHR ''Z'' then char_of (of_char c + (32::nat)) else c)"

definition asciiLowerCase :: "string \<Rightarrow> string" where
  "asciiLowerCase s = map asciiLowerChar s"

definition mockSystem :: system where
  "mockSystem =
     \<lparr>sys_GITHUB_OUTPUT = None,
      sys_execSync = (\<lambda>_ _ _. Inr ()),
      sys_readFileSync = (\<lambda>_ _. Inr ''export default {}''),
      sys_basename = (\<lambda>p. rev (takeWhile (\<lambda>c. c \<noteq> CHR ''/'') (rev p))),
      sys_toLowerCase = asciiLowerCase\<rparr>"

definition baseConfig :: config where
  "baseConfig =
     \<lparr>cfg_name = ''my-project'',
      cfg_repo = \<lparr>repo_owner = ''myorg'', repo_name = ''myrepo''\<rparr>,
      cfg_production_branch = ''main'',
      cfg_preview = Some \<lparr>pv_branches = Some [''*''], pv_exclude = Some []\<rparr>,
      cfg_build = Some \<lparr>bs_command = Some ''npm run build'', bs_output = Some ''dist'',
                         bs_root = Some []\<rparr>,
      cfg_worker = None\<rparr>"

definition workerTestConfig :: "bool option \<Rightarrow> config" where
  "workerTestConfig previews =
     \<lparr>cfg_name = ''my-app'',
      cfg_repo = \<lparr>repo_owner = ''myorg'', repo_name = ''myrepo''\<rparr>,
      cfg_production_branch = ''main'',
      cfg_preview = None,
      cfg_build = None,
      cfg_worker =
        Some \<lparr>wk_name = Some ''my-worker'', wk_main = ''worker/worker.js'',
               wk_build_command = None, wk_compatibility_date = Some ''2024-01-01'',
               wk_compatibility_flags = None, wk_deploy_previews = previews,
               wk_bindings = None\<rparr>\<rparr>"


section \<open>Theorems\<close>

subsection \<open>Naming\<close>

lemma replace_slash_map:
  "replace_slash s = map (\<lambda>c. if c = CHR ''/'' then CHR ''-'' else c) s"
  by (induction s) simp_all










text \<open>
  C3. For every base name and every branch (the empty one included): on the production
  branch the deployment identity is the base name itself, with no prefix and nothing
  normalised; on any other branch it is the normalised branch, a hyphen, and the base
  name, where the normalised branch is the branch with every \<open>/\<close> turned into \<open>-\<close> and
  then lower-cased by the platform's \<open>toLowerCase\<close>. In particular
  \<open>getWorkerName(base, b, b) == base\<close>. Nothing is assumed of \<open>toLowerCase\<close>.
\<close>

theorem getWorkerName_identity:
  "(branch = productionBranch \<longrightarrow>
      getWorkerName toLowerCase baseName branch productionBranch = baseName) \<and>
   (branch \<noteq> productionBranch \<longrightarrow>
      getWorkerName toLowerCase baseName branch productionBranch
        = toLowerCase (map (\<lambda>c. if c = CHR ''/'' then CHR ''-'' else c) branch)
            @ ''-'' @ baseName) \<and>
   getWorkerName toLowerCase baseName b b = baseName"
  by (simp add: getWorkerName_def isProduction_def normalizeBranchName_def replace_slash_map)

theorem getWorkerName_identity_witness:
  "getWorkerName asciiLowerCase ''api'' ''main'' ''main'' = ''api'' \<and>
   getWorkerName asciiLowerCase ''api'' ''feature/auth'' ''main'' = ''feature-auth-api'' \<and>
   getWorkerName asciiLowerCase ''worker'' ''feature/JIRA-123/auth'' ''main''
     = ''feature-jira-123-auth-worker''"
  using getWorkerName_identity
      [where toLowerCase = asciiLowerCase and branch = "''main''"
         and productionBranch = "''main''" and baseName = "''api''" and b = "''main''"]
    getWorkerName_identity
      [where toLowerCase = asciiLowerCase and branch = "''feature/auth''"
         and productionBranch = "''main''" and baseName = "''api''" and b = "''main''"]
    getWorkerName_identity
      [where toLowerCase = asciiLowerCase and branch = "''feature/JIRA-123/auth''"
         and productionBranch = "''main''" and baseName = "''worker''" and b = "''main''"]
  by (simp add: asciiLowerCase_def asciiLowerChar_def less_eq_char_def char_of_eq_iff)


subsection \<open>Binding translation\<close>

lemma fold_push: "fold (\<lambda>x bs. push bs (f x)) xs acc = acc @ map f xs"
  by (induction xs arbitrary: acc) (simp_all add: push_def)

lemma fold_push_pair:
  "fold (\<lambda>(n, v) bs. push bs (f n v)) xs acc = acc @ map (\<lambda>(n, v). f n v) xs"
  using fold_push [of "\<lambda>(n, v). f n v" xs acc] by (simp add: case_prod_unfold)

lemma buildBindings_append:
  "buildBindings bindingsConfig secrets =
     map (\<lambda>(n, v). PlainText n (js_String v))
         (entries_of (Option.bind bindingsConfig environment_variables))
     @ map (\<lambda>(n, v). SecretText n (js_String v)) (entries_of secrets)
     @ map (\<lambda>kv. KvNamespace (kv_binding kv) (kv_id kv))
         (entries_of (Option.bind bindingsConfig kv_namespaces))
     @ map (\<lambda>d1. D1 (d1_binding d1) (d1_database_id d1))
         (entries_of (Option.bind bindingsConfig d1_databases))
     @ map (\<lambda>r2. R2Bucket (r2_binding r2) (r2_bucket_name r2))
         (entries_of (Option.bind bindingsConfig r2_buckets))"
  unfolding buildBindings_def Let_def entries_of_def
  by (simp add: fold_push fold_push_pair split: option.splits)

text \<open>The decimal numeral that \<open>natToString\<close> writes.\<close>

lemma of_char_digitChar: "d < 10 \<Longrightarrow> (of_char (digitChar d) :: nat) = 48 + d"
  by (simp add: digitChar_def)

lemma digitChar_range: "d < 10 \<Longrightarrow> CHR ''0'' \<le> digitChar d \<and> digitChar d \<le> CHR ''9''"
  by (simp add: less_eq_char_def of_char_digitChar)

lemma natToString_nonempty: "natToString n \<noteq> []"
  by (subst natToString.simps) simp

lemma natToString_digits: "c \<in> set (natToString n) \<Longrightarrow> CHR ''0'' \<le> c \<and> c \<le> CHR ''9''"
proof (induction n arbitrary: c rule: natToString.induct)
  case (1 n)
  show ?case
  proof (cases "n < 10")
    case True
    with "1.prems" show ?thesis
      by (simp add: natToString.simps [of n] digitChar_range)
  next
    case False
    with "1.prems" have "c \<in> set (natToString (n div 10)) \<or> c = digitChar (n mod 10)"
      by (auto simp add: natToString.simps [of n])
    then show ?thesis
      using "1.IH" [OF False] by (auto simp: digitChar_range)
  qed
qed

lemma natToString_value:
  "foldl (\<lambda>a c. 10 * a + (of_char c - 48)) 0 (natToString n) = n"
proof (induction n rule: natToString.induct)
  case (1 n)
  show ?case
  proof (cases "n < 10")
    case True
    then show ?thesis
      by (simp add: natToString.simps [of n] of_char_digitChar)
  next
    case False
    then show ?thesis
      using "1.IH" [OF False]
      by (simp add: natToString.simps [of n] of_char_digitChar)
  qed
qed

lemma natToString_leading_zero: "hd (natToString n) = CHR ''0'' \<Longrightarrow> n = 0"
proof (induction n rule: natToString.induct)
  case (1 n)
  show ?case
  proof (cases "n < 10")
    case True
    with "1.prems" have "(of_char (digitChar n) :: nat) = of_char (CHR ''0'')"
      by (simp add: natToString.simps [of n])
    with True show ?thesis
      by (simp add: of_char_digitChar)
  next
    case False
    with "1.prems" have "hd (natToString (n div 10)) = CHR ''0''"
      by (simp add: natToString.simps [of n] natToString_nonempty)
    then have "n div 10 = 0"
      by (rule "1.IH" [OF False])
    with False show ?thesis
      by simp
  qed
qed

lemma natToString_zero: "natToString 0 = ''0''"
  by (simp add: natToString.simps [of 0] digitChar_def char_of_eq_iff)

lemma natToString_3000: "natToString 3000 = ''3000''"
  by (simp add: natToString.simps [of 3000] natToString.simps [of 300]
        natToString.simps [of 30] natToString.simps [of 3] digitChar_def char_of_eq_iff)

lemma natToString_5000: "natToString 5000 = ''5000''"
  by (simp add: natToString.simps [of 5000] natToString.simps [of 500]
        natToString.simps [of 50] natToString.simps [of 5] digitChar_def char_of_eq_iff)

lemma intToString_decimal:
  "\<exists>digits. intToString i = (if i < 0 then ''-'' else []) @ digits \<and>
     digits \<noteq> [] \<and>
     (\<forall>c\<in>set digits. CHR ''0'' \<le> c \<and> c \<le> CHR ''9'') \<and>
     (hd digits = CHR ''0'' \<longrightarrow> digits = ''0'') \<and>
     int (foldl (\<lambda>a c. 10 * a + (of_char c - 48)) 0 digits) = \<bar>i\<bar>"
proof -
  let ?digits = "natToString (nat \<bar>i\<bar>)"
  have "intToString i = (if i < 0 then ''-'' else []) @ ?digits"
    by (simp add: intToString_def abs_if)
  moreover have "?digits \<noteq> []"
    by (rule natToString_nonempty)
  moreover have "\<forall>c\<in>set ?digits. CHR ''0'' \<le> c \<and> c \<le> CHR ''9''"
    using natToString_digits by blast
  moreover have "hd ?digits = CHR ''0'' \<longrightarrow> ?digits = ''0''"
    using natToString_leading_zero [of "nat \<bar>i\<bar>"] natToString_zero by auto
  moreover have "int (foldl (\<lambda>a c. 10 * a + (of_char c - 48)) 0 ?digits) = \<bar>i\<bar>"
    by (simp add: natToString_value)
  ultimately show ?thesis
    by blast
qed

text \<open>
  C7. Binding translation is a function of the binding specification and the secrets
  alone. For \<open>{environment_variables: {API_URL: "https://x"}}\<close> and secrets
  \<open>{API_KEY: "k"}\<close> it returns exactly the plain-text record for \<open>API_URL\<close> followed by
  the secret-text record for \<open>API_KEY\<close>. A numeric value is turned into its string
  representation: \<open>3000\<close> becomes \<open>"3000"\<close>, and every safe integer becomes its decimal
  numeral, that is a minus sign when it is negative, followed by digits \<open>0\<close> to \<open>9\<close> with
  no leading zero whose value in base ten is its absolute value, which is at most
  \<open>2^53 - 1\<close>. For every input the
  result is the environment variables, then the secrets, then the KV namespaces, then
  the D1 databases, then the R2 buckets, each group in its own order.
\<close>

theorem buildBindings_translation:
  "buildBindings
     (Some \<lparr>environment_variables = Some [(''API_URL'', JString ''https://x'')],
            kv_namespaces = None, d1_databases = None, r2_buckets = None\<rparr>)
     (Some [(''API_KEY'', JString ''k'')])
     = [PlainText ''API_URL'' ''https://x'', SecretText ''API_KEY'' ''k''] \<and>
   buildBindings
     (Some \<lparr>environment_variables = Some [(''PORT'', JInteger (safe_integer 3000))],
            kv_namespaces = None, d1_databases = None, r2_buckets = None\<rparr>)
     None
     = [PlainText ''PORT'' ''3000''] \<and>
   (\<exists>digits.
      buildBindings
        (Some \<lparr>environment_variables = Some [(name, JInteger n)],
               kv_namespaces = None, d1_databases = None, r2_buckets = None\<rparr>)
        None
        = [PlainText name ((if int_of_safe n < 0 then ''-'' else []) @ digits)] \<and>
      digits \<noteq> [] \<and>
      (\<forall>c\<in>set digits. CHR ''0'' \<le> c \<and> c \<le> CHR ''9'') \<and>
      (hd digits = CHR ''0'' \<longrightarrow> digits = ''0'') \<and>
      int (foldl (\<lambda>a c. 10 * a + (of_char c - 48)) 0 digits) = \<bar>int_of_safe n\<bar> \<and>
      \<bar>int_of_safe n\<bar> \<le> 9007199254740991) \<and>
   buildBindings bindingsConfig secrets =
     map (\<lambda>(n, v). PlainText n (js_String v))
         (entries_of (Option.bind bindingsConfig environment_variables))
     @ map (\<lambda>(n, v). SecretText n (js_String v)) (entries_of secrets)
     @ map (\<lambda>kv. KvNamespace (kv_binding kv) (kv_id kv))
         (entries_of (Option.bind bindingsConfig kv_namespaces))
     @ map (\<lambda>d1. D1 (d1_binding d1) (d1_database_id d1))
         (entries_of (Option.bind bindingsConfig d1_databases))
     @ map (\<lambda>r2. R2Bucket (r2_binding r2) (r2_bucket_name r2))
         (entries_of (Option.bind bindingsConfig r2_buckets))"
proof (intro conjI)
  show "buildBindings
     (Some \<lparr>environment_variables = Some [(''API_URL'', JString ''https://x'')],
            kv_namespaces = None, d1_databases = None, r2_buckets = None\<rparr>)
     (Some [(''API_KEY'', JString ''k'')])
     = [PlainText ''API_URL'' ''https://x'', SecretText ''API_KEY'' ''k'']"
    by (simp add: buildBindings_append entries_of_def)
  show "buildBindings
     (Some \<lparr>environment_variables = Some [(''PORT'', JInteger (safe_integer 3000))],
            kv_namespaces = None, d1_databases = None, r2_buckets = None\<rparr>)
     None
     = [PlainText ''PORT'' ''3000'']"
    by (simp add: buildBindings_append entries_of_def intToString_def natToString_3000
          safe_integer_inverse)
  show "\<exists>digits.
      buildBindings
        (Some \<lparr>environment_variables = Some [(name, JInteger n)],
               kv_namespaces = None, d1_databases = None, r2_buckets = None\<rparr>)
        None
        = [PlainText name ((if int_of_safe n < 0 then ''-'' else []) @ digits)] \<and>
      digits \<noteq> [] \<and>
      (\<forall>c\<in>set digits. CHR ''0'' \<le> c \<and> c \<le> CHR ''9'') \<and>
      (hd digits = CHR ''0'' \<longrightarrow> digits = ''0'') \<and>
      int (foldl (\<lambda>a c. 10 * a + (of_char c - 48)) 0 digits) = \<bar>int_of_safe n\<bar> \<and>
      \<bar>int_of_safe n\<bar> \<le> 9007199254740991"
    using intToString_decimal [of "int_of_safe n"] int_of_safe [of n]
    by (simp add: buildBindings_append entries_of_def abs_le_iff)
  show "buildBindings bindingsConfig secrets =
     map (\<lambda>(n, v). PlainText n (js_String v))
         (entries_of (Option.bind bindingsConfig environment_variables))
     @ map (\<lambda>(n, v). SecretText n (js_String v)) (entries_of secrets)
     @ map (\<lambda>kv. KvNamespace (kv_binding kv) (kv_id kv))
         (entries_of (Option.bind bindingsConfig kv_namespaces))
     @ map (\<lambda>d1. D1 (d1_binding d1) (d1_database_id d1))
         (entries_of (Option.bind bindingsConfig d1_databases))
     @ map (\<lambda>r2. R2Bucket (r2_binding r2) (r2_bucket_name r2))
         (entries_of (Option.bind bindingsConfig r2_buckets))"
    by (rule buildBindings_append)
qed

theorem buildBindings_translation_witness:
  "buildBindings
     (Some \<lparr>environment_variables =
              Some [(''PORT'', JInteger (safe_integer 3000)),
                    (''TIMEOUT'', JInteger (safe_integer 5000))],
            kv_namespaces = Some [\<lparr>kv_binding = ''KV'', kv_id = ''kv-id''\<rparr>],
            d1_databases = Some [\<lparr>d1_binding = ''DB'', d1_database_id = ''db-id''\<rparr>],
            r2_buckets = Some [\<lparr>r2_binding = ''R2'', r2_bucket_name = ''bucket''\<rparr>]\<rparr>)
     (Some [(''SECRET'', JString ''secret-value'')])
     = [PlainText ''PORT'' ''3000'', PlainText ''TIMEOUT'' ''5000'',
        SecretText ''SECRET'' ''secret-value'', KvNamespace ''KV'' ''kv-id'',
        D1 ''DB'' ''db-id'', R2Bucket ''R2'' ''bucket'']"
  using buildBindings_translation
    [where bindingsConfig =
        "Some \<lparr>environment_variables =
                 Some [(''PORT'', JInteger (safe_integer 3000)),
                       (''TIMEOUT'', JInteger (safe_integer 5000))],
               kv_namespaces = Some [\<lparr>kv_binding = ''KV'', kv_id = ''kv-id''\<rparr>],
               d1_databases = Some [\<lparr>d1_binding = ''DB'', d1_database_id = ''db-id''\<rparr>],
               r2_buckets = Some [\<lparr>r2_binding = ''R2'', r2_bucket_name = ''bucket''\<rparr>]\<rparr>"
       and secrets = "Some [(''SECRET'', JString ''secret-value'')]"]
  by (simp add: entries_of_def intToString_def natToString_3000 natToString_5000
        safe_integer_inverse)

text \<open>
  C10. Binding translation neither checks names for uniqueness nor removes duplicates:
  the result has one record per entry of the five sources, so its length is the total
  number of entries, and a name that is both an environment variable and a secret comes
  out twice, once as plain text and once as secret text.
\<close>

theorem buildBindings_keeps_duplicates:
  "length (buildBindings bindingsConfig secrets) =
     length (entries_of (Option.bind bindingsConfig environment_variables))
     + length (entries_of secrets)
     + length (entries_of (Option.bind bindingsConfig kv_namespaces))
     + length (entries_of (Option.bind bindingsConfig d1_databases))
     + length (entries_of (Option.bind bindingsConfig r2_buckets)) \<and>
   buildBindings
     (Some \<lparr>environment_variables = Some [(n, v)],
            kv_namespaces = None, d1_databases = None, r2_buckets = None\<rparr>)
     (Some [(n, w)])
     = [PlainText n (js_String v), SecretText n (js_String w)] \<and>
   map binding_name
     (buildBindings
        (Some \<lparr>environment_variables = Some [(n, v)],
               kv_namespaces = None, d1_databases = None, r2_buckets = None\<rparr>)
        (Some [(n, w)]))
     = [n, n]"
  by (simp add: buildBindings_append entries_of_def)


subsection \<open>Traces and the steps of a run\<close>

lemma side_effects_Nil [simp]: "side_effects [] = []"
  by (simp add: side_effects_def)

lemma side_effects_Cons [simp]:
  "side_effects (e # t) = (if is_console e then side_effects t else e # side_effects t)"
  by (simp add: side_effects_def)

lemma side_effects_append [simp]: "side_effects (a @ b) = side_effects a @ side_effects b"
  by (simp add: side_effects_def)

lemma side_effects_errors [simp]: "side_effects (map ConsoleError ls) = []"
  by (induction ls) simp_all

lemma pages_calls_Nil [simp]: "pages_calls [] = []"
  by (simp add: pages_calls_def)

lemma pages_calls_Cons [simp]:
  "pages_calls (e # t) = (if is_pages_call e then e # pages_calls t else pages_calls t)"
  by (simp add: pages_calls_def)

lemma pages_calls_append [simp]: "pages_calls (a @ b) = pages_calls a @ pages_calls b"
  by (simp add: pages_calls_def)

lemma pages_calls_output [simp]:
  "pages_calls (case v of None \<Rightarrow> []
                | Some file \<Rightarrow> if file = [] then [] else [AppendFile file x]) = []"
  by (simp split: option.splits)

lemma uploaded_names_append [simp]:
  "uploaded_names (a @ b) = uploaded_names a @ uploaded_names b"
  by (induction a rule: uploaded_names.induct) simp_all

lemma uploaded_names_output [simp]:
  "uploaded_names (case v of None \<Rightarrow> []
                   | Some file \<Rightarrow> if file = [] then [] else [AppendFile file x]) = []"
  by (simp split: option.splits)

text \<open>What each action does to a trace.\<close>

lemma return_apply: "return x t = (t, Returned x)"
  by (simp add: return_def)

lemma throw_apply: "throw e t = (t, Thrown e)"
  by (simp add: throw_def)

lemma process_exit_apply: "process_exit n t = (t, Exited n)"
  by (simp add: process_exit_def)

lemma console_log_apply: "console_log ls t = (t @ map ConsoleLog ls, Returned ())"
  by (simp add: console_log_def)

lemma console_error_apply: "console_error ls t = (t @ map ConsoleError ls, Returned ())"
  by (simp add: console_error_def)

lemma await_apply:
  "await ev respond t =
     (t @ [ev], case respond (side_effects t) of Inl e \<Rightarrow> Thrown e | Inr x \<Rightarrow> Returned x)"
  by (simp add: await_def)

lemma bind_apply:
  "bind m f t = (case m t of
                   (t', Returned x) \<Rightarrow> f x t'
                 | (t', Thrown e) \<Rightarrow> (t', Thrown e)
                 | (t', Exited n) \<Rightarrow> (t', Exited n))"
  by (simp add: bind_def)

lemma try_catch_apply:
  "try_catch m h t = (case m t of
                        (t', Thrown e) \<Rightarrow> h e t'
                      | (t', Returned x) \<Rightarrow> (t', Returned x)
                      | (t', Exited n) \<Rightarrow> (t', Exited n))"
  by (simp add: try_catch_def)

lemma setOutput_apply:
  "setOutput sys n v t =
     (t @ (case sys_GITHUB_OUTPUT sys of
             None \<Rightarrow> []
           | Some file \<Rightarrow>
               if file = [] then [] else [AppendFile file (n @ ''='' @ v @ ''\<newline>'')]),
      Returned ())"
  by (simp add: setOutput_def return_def split: option.splits)

lemmas io_apply = return_apply throw_apply process_exit_apply console_log_apply
  console_error_apply await_apply bind_apply try_catch_apply setOutput_apply

lemma bind_returned:
  assumes "snd (bind m f t) = Returned y"
  obtains x t1 where "m t = (t1, Returned x)" and "bind m f t = f x t1"
proof (cases "m t")
  case (Pair t1 r)
  with assms show ?thesis
    by (cases r) (auto simp: bind_apply intro: that)
qed


subsection \<open>Project reconciliation\<close>

text \<open>
  C1. The claim: after the mutating call the project is fetched again and the returned URL
  is built from the subdomain of that answer, the default \<open>https://<name>.pages.dev\<close>
  being used only when the answer has no subdomain. The run below is the test
  \<open>should use subdomain from API response for URL\<close>: the first lookup is a 404 and any later
  lookup would answer with the subdomain \<open>custom-prefix-my-project.pages.dev\<close>.
  \<open>syncPages\<close> looks the project up once, creates it, never asks again, and returns the
  default URL.
\<close>

theorem syncPages_ignores_remote_subdomain:
  "snd (syncPages refetchClient
          mockSystem ''account-id'' baseConfig False [])
     = Returned \<lparr>pagesUrl = ''https://my-project.pages.dev''\<rparr> \<and>
   pages_calls
     (fst (syncPages refetchClient
             mockSystem ''account-id'' baseConfig False []))
     = [PagesGet ''my-project'' ''account-id'',
        PagesCreate (createParams_of ''account-id'' baseConfig)]"
  by (simp add: syncPages_def lookupProject_def io_apply absentClient_def directUploadClient_def noSourceClient_def refetchClient_def mockClient_def once_then_def
        notFound_def mockSystem_def baseConfig_def Let_def)

text \<open>
  C4. If the lookup finds a project whose source type is not \<open>github\<close> (a project with no
  source included) and recreation is not allowed, the run ends with \<open>process.exit(1)\<close>.
  Before it exits it writes the six lines of the diagnostic to \<open>console.error\<close>, and they
  are the last thing it does. The lookup is its only side effect: neither \<open>delete\<close> nor
  \<open>create\<close> nor \<open>edit\<close> is called.
\<close>

theorem syncPages_abort:
  assumes \<open>pages_projects_get client (side_effects t) (cfg_name config) accountId
             = Inr (Some project)\<close>
    and \<open>map_option rs_type (rp_source project) \<noteq> Some ''github''\<close>
    and \<open>\<not> allowRecreate\<close>
  shows \<open>snd (syncPages client sys accountId config allowRecreate t) = Exited 1 \<and>
         side_effects (fst (syncPages client sys accountId config allowRecreate t))
           = side_effects t @ [PagesGet (cfg_name config) accountId] \<and>
         fst (syncPages client sys accountId config allowRecreate t)
           = t @ [ConsoleLog ''\<newline>=== Pages Configuration ==='',
                  ConsoleLog (''Project: '' @ cfg_name config),
                  ConsoleLog (''Repo: '' @ repo_owner (cfg_repo config) @ ''/''
                                @ repo_name (cfg_repo config)),
                  ConsoleLog (''Production branch: '' @ cfg_production_branch config),
                  PagesGet (cfg_name config) accountId,
                  ConsoleLog ''\<newline>Project exists, checking configuration...'',
                  ConsoleError ''\<newline>ERROR: Project exists as a Direct Upload project.'',
                  ConsoleError
                    ''To migrate to GitHub integration, the project must be deleted and recreated.'',
                  ConsoleError ''\<newline>To allow this, either:'',
                  ConsoleError
                    ''  1. Run the workflow manually with "Allow recreate" checked'',
                  ConsoleError
                    ''  2. Add "allow_recreate": true to cloudflare.json (then remove it after)'',
                  ConsoleError
                    ''\<newline>WARNING: This will delete all existing deployments and history!'']\<close>
  using assms
  by (simp add: syncPages_def lookupProject_def hasGitHubSource_def recreate_diagnostic_def
        io_apply)

theorem syncPages_abort_witness:
  \<open>syncPages directUploadClient mockSystem ''account-id'' baseConfig False []
     = ([ConsoleLog ''\<newline>=== Pages Configuration ==='',
         ConsoleLog ''Project: my-project'',
         ConsoleLog ''Repo: myorg/myrepo'',
         ConsoleLog ''Production branch: main'',
         PagesGet ''my-project'' ''account-id'',
         ConsoleLog ''\<newline>Project exists, checking configuration...'',
         ConsoleError ''\<newline>ERROR: Project exists as a Direct Upload project.'',
         ConsoleError
           ''To migrate to GitHub integration, the project must be deleted and recreated.'',
         ConsoleError ''\<newline>To allow this, either:'',
         ConsoleError ''  1. Run the workflow manually with "Allow recreate" checked'',
         ConsoleError
           ''  2. Add "allow_recreate": true to cloudflare.json (then remove it after)'',
         ConsoleError
           ''\<newline>WARNING: This will delete all existing deployments and history!''],
        Exited 1) \<and>
   side_effects
     (fst (syncPages directUploadClient mockSystem ''account-id'' baseConfig False []))
     = [PagesGet ''my-project'' ''account-id''] \<and>
   snd (syncPages noSourceClient mockSystem ''account-id'' baseConfig False []) = Exited 1 \<and>
   side_effects
     (fst (syncPages noSourceClient mockSystem ''account-id'' baseConfig False []))
     = [PagesGet ''my-project'' ''account-id'']\<close>
proof -
  have g1: "pages_projects_get directUploadClient
              (side_effects []) (cfg_name baseConfig) ''account-id''
              = Inr (Some directUploadProject)"
    by (simp add: directUploadClient_def mockClient_def)
  have s1: "map_option rs_type (rp_source directUploadProject) \<noteq> Some ''github''"
    by (simp add: directUploadProject_def)
  have g2: "pages_projects_get noSourceClient
              (side_effects []) (cfg_name baseConfig) ''account-id''
              = Inr (Some noSourceProject)"
    by (simp add: noSourceClient_def mockClient_def)
  have s2: "map_option rs_type (rp_source noSourceProject) \<noteq> Some ''github''"
    by (simp add: noSourceProject_def)
  have a: "\<not> False"
    by simp
  have c: "cfg_name baseConfig = ''my-project''" "cfg_production_branch baseConfig = ''main''"
    "cfg_repo baseConfig = \<lparr>repo_owner = ''myorg'', repo_name = ''myrepo''\<rparr>"
    by (simp_all add: baseConfig_def)
  show ?thesis
    using syncPages_abort [where sys = mockSystem, OF g1 s1 a]
      syncPages_abort [where sys = mockSystem, OF g2 s2 a]
    by (simp add: c prod_eq_iff)
qed

text \<open>
  C5. If the lookup finds a project whose source type is not \<open>github\<close> and recreation is
  allowed, the calls to the project API are the lookup, then \<open>delete\<close> with the project
  name, and then, once \<open>delete\<close> has resolved, \<open>create\<close> with the desired GitHub
  source (type \<open>github\<close>, the declared repository owner and name, the declared production
  branch, deployments enabled, previews for all branches, the declared preview include
  and exclude lists or \<open>["*"]\<close> and \<open>[]\<close>) and the build configuration mapped from the
  declared one. \<open>delete\<close> comes strictly before \<open>create\<close>, and \<open>edit\<close> is not called. (A
  rejected \<open>delete\<close> is thrown on, and nothing is created.)
\<close>

theorem syncPages_recreate:
  assumes "pages_projects_get client (side_effects t) (cfg_name config) accountId
             = Inr (Some project)"
    and "map_option rs_type (rp_source project) \<noteq> Some ''github''"
    and "allowRecreate"
  shows "pages_calls (fst (syncPages client sys accountId config allowRecreate t))
           = pages_calls t
             @ [PagesGet (cfg_name config) accountId, PagesDelete (cfg_name config) accountId]
             @ (case pages_projects_delete client
                       (side_effects t @ [PagesGet (cfg_name config) accountId])
                       (cfg_name config) accountId of
                  Inl err \<Rightarrow> []
                | Inr u \<Rightarrow>
                    [PagesCreate
                       \<lparr>cr_account_id = accountId,
                        cr_name = cfg_name config,
                        cr_production_branch = cfg_production_branch config,
                        cr_source =
                          \<lparr>src_type = ''github'',
                           src_config =
                             \<lparr>gh_owner = repo_owner (cfg_repo config),
                              gh_repo_name = repo_name (cfg_repo config),
                              gh_production_branch = cfg_production_branch config,
                              gh_deployments_enabled = True,
                              gh_production_deployments_enabled = True,
                              gh_preview_deployment_setting = ''all'',
                              gh_preview_branch_includes =
                                (case Option.bind (cfg_preview config) pv_branches of
                                   None \<Rightarrow> [''*''] | Some bs \<Rightarrow> bs),
                              gh_preview_branch_excludes =
                                (case Option.bind (cfg_preview config) pv_exclude of
                                   None \<Rightarrow> [] | Some xs \<Rightarrow> xs)\<rparr>\<rparr>,
                        cr_build_config =
                          \<lparr>build_command =
                             (case Option.bind (cfg_build config) bs_command of
                                None \<Rightarrow> [] | Some c \<Rightarrow> c),
                           destination_dir =
                             (case Option.bind (cfg_build config) bs_output of
                                None \<Rightarrow> ''.'' | Some d \<Rightarrow> if d = [] then ''.'' else d),
                           root_dir =
                             (case Option.bind (cfg_build config) bs_root of
                                None \<Rightarrow> [] | Some r \<Rightarrow> r)\<rparr>\<rparr>])"
proof -
  have source: "sourceConfig_of config =
      \<lparr>src_type = ''github'',
       src_config =
         \<lparr>gh_owner = repo_owner (cfg_repo config),
          gh_repo_name = repo_name (cfg_repo config),
          gh_production_branch = cfg_production_branch config,
          gh_deployments_enabled = True,
          gh_production_deployments_enabled = True,
          gh_preview_deployment_setting = ''all'',
          gh_preview_branch_includes =
            (case Option.bind (cfg_preview config) pv_branches of
               None \<Rightarrow> [''*''] | Some bs \<Rightarrow> bs),
          gh_preview_branch_excludes =
            (case Option.bind (cfg_preview config) pv_exclude of
               None \<Rightarrow> [] | Some xs \<Rightarrow> xs)\<rparr>\<rparr>"
    by (simp add: sourceConfig_of_def or_array_def)
  have build: "buildConfig_of config =
      \<lparr>build_command =
         (case Option.bind (cfg_build config) bs_command of None \<Rightarrow> [] | Some c \<Rightarrow> c),
       destination_dir =
         (case Option.bind (cfg_build config) bs_output of
            None \<Rightarrow> ''.'' | Some d \<Rightarrow> if d = [] then ''.'' else d),
       root_dir =
         (case Option.bind (cfg_build config) bs_root of None \<Rightarrow> [] | Some r \<Rightarrow> r)\<rparr>"
    by (simp add: buildConfig_of_def or_string_def split: option.splits)
  have calls: "pages_calls (fst (syncPages client sys accountId config allowRecreate t))
           = pages_calls t
             @ [PagesGet (cfg_name config) accountId, PagesDelete (cfg_name config) accountId]
             @ (case pages_projects_delete client
                       (side_effects t @ [PagesGet (cfg_name config) accountId])
                       (cfg_name config) accountId of
                  Inl err \<Rightarrow> []
                | Inr u \<Rightarrow> [PagesCreate (createParams_of accountId config)])"
    using assms
    by (simp add: syncPages_def lookupProject_def hasGitHubSource_def io_apply Let_def
          split: sum.splits)
  show ?thesis
    using calls by (simp add: createParams_of_def source build split: sum.splits)
qed

theorem syncPages_recreate_witness:
  "pages_calls
     (fst (syncPages directUploadClient mockSystem ''account-id'' baseConfig True []))
     = [PagesGet ''my-project'' ''account-id'',
        PagesDelete ''my-project'' ''account-id'',
        PagesCreate
          \<lparr>cr_account_id = ''account-id'',
           cr_name = ''my-project'',
           cr_production_branch = ''main'',
           cr_source =
             \<lparr>src_type = ''github'',
              src_config =
                \<lparr>gh_owner = ''myorg'',
                 gh_repo_name = ''myrepo'',
                 gh_production_branch = ''main'',
                 gh_deployments_enabled = True,
                 gh_production_deployments_enabled = True,
                 gh_preview_deployment_setting = ''all'',
                 gh_preview_branch_includes = [''*''],
                 gh_preview_branch_excludes = []\<rparr>\<rparr>,
           cr_build_config =
             \<lparr>build_command = ''npm run build'', destination_dir = ''dist'',
              root_dir = []\<rparr>\<rparr>]"
proof -
  have g: "pages_projects_get directUploadClient
             (side_effects []) (cfg_name baseConfig) ''account-id''
             = Inr (Some directUploadProject)"
    by (simp add: directUploadClient_def mockClient_def)
  have s: "map_option rs_type (rp_source directUploadProject) \<noteq> Some ''github''"
    by (simp add: directUploadProject_def)
  have a: "True"
    by simp
  have d: "pages_projects_delete directUploadClient h n acc = Inr ()" for h n acc
    by (simp add: directUploadClient_def mockClient_def)
  have c: "cfg_name baseConfig = ''my-project''" "cfg_production_branch baseConfig = ''main''"
    "cfg_repo baseConfig = \<lparr>repo_owner = ''myorg'', repo_name = ''myrepo''\<rparr>"
    "cfg_preview baseConfig = Some \<lparr>pv_branches = Some [''*''], pv_exclude = Some []\<rparr>"
    "cfg_build baseConfig
       = Some \<lparr>bs_command = Some ''npm run build'', bs_output = Some ''dist'',
               bs_root = Some []\<rparr>"
    by (simp_all add: baseConfig_def)
  show ?thesis
    using syncPages_recreate [where sys = mockSystem, OF g s a]
    by (simp add: d c)
qed

text \<open>
  C6. When the first lookup is rejected with status 404, \<open>create\<close> is called, and its build
  configuration is the declared one renamed: the build command (empty when unset), the
  output directory as \<open>destination_dir\<close> (\<open>.\<close> when unset, and also when it is the empty
  string, which is falsy), the root directory as \<open>root_dir\<close> (empty when unset). The
  declared \<open>{command: "npm run build", output: "dist", root: ""}\<close> becomes
  \<open>{build_command: "npm run build", destination_dir: "dist", root_dir: ""}\<close>.
\<close>

theorem syncPages_create_when_absent:
  assumes "pages_projects_get client (side_effects t) (cfg_name config) accountId = Inl err"
    and "err_status err = Some 404"
  shows "pages_calls (fst (syncPages client sys accountId config allowRecreate t))
           = pages_calls t
             @ [PagesGet (cfg_name config) accountId,
                PagesCreate
                  \<lparr>cr_account_id = accountId,
                   cr_name = cfg_name config,
                   cr_production_branch = cfg_production_branch config,
                   cr_source = sourceConfig_of config,
                   cr_build_config =
                     \<lparr>build_command =
                        (case Option.bind (cfg_build config) bs_command of
                           None \<Rightarrow> [] | Some c \<Rightarrow> c),
                      destination_dir =
                        (case Option.bind (cfg_build config) bs_output of
                           None \<Rightarrow> ''.'' | Some d \<Rightarrow> if d = [] then ''.'' else d),
                      root_dir =
                        (case Option.bind (cfg_build config) bs_root of
                           None \<Rightarrow> [] | Some r \<Rightarrow> r)\<rparr>\<rparr>] \<and>
         buildConfig_of
           (config\<lparr>cfg_build :=
                     Some \<lparr>bs_command = Some ''npm run build'', bs_output = Some ''dist'',
                            bs_root = Some []\<rparr>\<rparr>)
           = \<lparr>build_command = ''npm run build'', destination_dir = ''dist'', root_dir = []\<rparr>"
proof -
  have mapping: "buildConfig_of config =
      \<lparr>build_command =
         (case Option.bind (cfg_build config) bs_command of None \<Rightarrow> [] | Some c \<Rightarrow> c),
       destination_dir =
         (case Option.bind (cfg_build config) bs_output of
            None \<Rightarrow> ''.'' | Some d \<Rightarrow> if d = [] then ''.'' else d),
       root_dir =
         (case Option.bind (cfg_build config) bs_root of None \<Rightarrow> [] | Some r \<Rightarrow> r)\<rparr>"
    by (simp add: buildConfig_of_def or_string_def split: option.splits)
  have calls: "pages_calls (fst (syncPages client sys accountId config allowRecreate t))
           = pages_calls t
             @ [PagesGet (cfg_name config) accountId,
                PagesCreate (createParams_of accountId config)]"
    using assms
    by (simp add: syncPages_def lookupProject_def io_apply Let_def split: sum.splits)
  have example: "buildConfig_of
           (config\<lparr>cfg_build :=
                     Some \<lparr>bs_command = Some ''npm run build'', bs_output = Some ''dist'',
                            bs_root = Some []\<rparr>\<rparr>)
           = \<lparr>build_command = ''npm run build'', destination_dir = ''dist'', root_dir = []\<rparr>"
    by (simp add: buildConfig_of_def or_string_def)
  show ?thesis
    using calls example by (simp add: createParams_of_def mapping [symmetric])
qed

theorem syncPages_create_when_absent_witness:
  "pages_calls
     (fst (syncPages absentClient mockSystem ''account-id'' baseConfig
             False []))
     = [PagesGet ''my-project'' ''account-id'',
        PagesCreate
          \<lparr>cr_account_id = ''account-id'',
           cr_name = ''my-project'',
           cr_production_branch = ''main'',
           cr_source = sourceConfig_of baseConfig,
           cr_build_config =
             \<lparr>build_command = ''npm run build'', destination_dir = ''dist'',
              root_dir = []\<rparr>\<rparr>]"
proof -
  have g: "pages_projects_get absentClient
             (side_effects []) (cfg_name baseConfig) ''account-id'' = Inl notFound"
    by (simp add: absentClient_def directUploadClient_def noSourceClient_def refetchClient_def mockClient_def)
  have s: "err_status notFound = Some 404"
    by (simp add: notFound_def)
  have c: "cfg_name baseConfig = ''my-project''" "cfg_production_branch baseConfig = ''main''"
    "cfg_build baseConfig
       = Some \<lparr>bs_command = Some ''npm run build'', bs_output = Some ''dist'',
               bs_root = Some []\<rparr>"
    by (simp_all add: baseConfig_def)
  show ?thesis
    using syncPages_create_when_absent
      [where sys = mockSystem and allowRecreate = False, OF g s]
    by (simp add: c)
qed



subsection \<open>Artifact publication\<close>

lemma uploaded_names_logs [simp]: "uploaded_names (map ConsoleLog ls) = []"
  by (induction ls) simp_all

lemma uploaded_names_errors [simp]: "uploaded_names (map ConsoleError ls) = []"
  by (induction ls) simp_all

lemma runBuild_result:
  "runBuild sys cmd wd t =
     (if cmd = [] then (t, Returned ())
      else case sys_execSync sys (side_effects t) cmd wd of
             Inl e \<Rightarrow>
               (t @ [ConsoleLog (''Running build command: '' @ cmd), ExecSync cmd wd,
                     ConsoleError (''Build failed: '' @ err_message e)], Thrown e)
           | Inr u \<Rightarrow>
               (t @ [ConsoleLog (''Running build command: '' @ cmd), ExecSync cmd wd,
                     ConsoleLog ''Build completed successfully''], Returned ()))"
  by (simp add: runBuild_def io_apply split: sum.splits)

lemma build_phase_names:
  "uploaded_names
     (fst ((case cmd of None \<Rightarrow> return ()
            | Some c \<Rightarrow> if c = [] then return () else runBuild sys c wd) t))
     = uploaded_names t"
  by (simp add: runBuild_result return_apply split: option.splits sum.splits)

lemma readWorkerScript_names:
  "uploaded_names (fst (readWorkerScript sys path t)) = uploaded_names t"
  by (simp add: readWorkerScript_def io_apply split: sum.splits)

lemma uploadWorkerScript_returned:
  "snd (uploadWorkerScript client sys accountId n metadata content m t) = Returned r \<Longrightarrow>
   map_option workerName r = Some n \<and>
   uploaded_names (fst (uploadWorkerScript client sys accountId n metadata content m t))
     = uploaded_names t @ [n]"
  by (auto simp add: uploadWorkerScript_def io_apply Let_def split: sum.splits option.splits)

lemma syncWorker_ignores_wk_name:
  "syncWorker client sys accountId
     (config\<lparr>cfg_worker := map_option (\<lambda>wc. wc\<lparr>wk_name := x\<rparr>) (cfg_worker config)\<rparr>)
     branch secrets workingDir
   = syncWorker client sys accountId config branch secrets workingDir"
  by (cases "cfg_worker config") (simp_all add: syncWorker_def Let_def)

lemma syncWorker_returned:
  assumes "snd (syncWorker client sys accountId config branch secrets workingDir t)
             = Returned (Some res)"
  shows "workerName res = getWorkerName (sys_toLowerCase sys) (cfg_name config) branch
             (cfg_production_branch config) \<and>
         uploaded_names (fst (syncWorker client sys accountId config branch secrets workingDir t))
           = uploaded_names t @ [workerName res]"
proof (cases "cfg_worker config")
  case None
  with assms show ?thesis
    by (simp add: syncWorker_def io_apply)
next
  case (Some wc)
  let ?n = "getWorkerName (sys_toLowerCase sys) (cfg_name config) branch
             (cfg_production_branch config)"
  show ?thesis
  proof (cases "\<not> isProduction branch (cfg_production_branch config)
                 \<and> wk_deploy_previews wc = Some False")
    case True
    with assms Some show ?thesis
      by (simp add: syncWorker_def io_apply)
  next
    case False
    define build where "build =
      (case wk_build_command wc of None \<Rightarrow> return ()
       | Some c \<Rightarrow> if c = [] then return () else runBuild sys c workingDir)"
    define upload where "upload = (\<lambda>content.
       uploadWorkerScript client sys accountId ?n
         \<lparr>main_module = sys_basename sys (wk_main wc),
          md_compatibility_date = wk_compatibility_date wc,
          md_compatibility_flags = or_array (wk_compatibility_flags wc) [],
          md_bindings = buildBindings (wk_bindings wc) secrets\<rparr>
         content (sys_basename sys (wk_main wc)))"
    obtain t0 where run:
      "syncWorker client sys accountId config branch secrets workingDir t
         = bind build
             (\<lambda>_. bind (readWorkerScript sys (workingDir @ ''/'' @ wk_main wc)) upload) t0"
      and t0: "uploaded_names t0 = uploaded_names t"
      using Some False
      by (simp add: syncWorker_def Let_def bind_apply [of "console_log _"] console_log_apply
            build_def upload_def)
    from assms run obtain u t1 where
      b: "build t0 = (t1, Returned u)" and
      run1: "syncWorker client sys accountId config branch secrets workingDir t
               = bind (readWorkerScript sys (workingDir @ ''/'' @ wk_main wc)) upload t1"
      by (auto elim: bind_returned)
    have t1: "uploaded_names t1 = uploaded_names t0"
      using build_phase_names [where cmd = "wk_build_command wc" and sys = sys
          and wd = workingDir and t = t0] b
      by (simp add: build_def)
    from assms run1 obtain content t2 where
      r: "readWorkerScript sys (workingDir @ ''/'' @ wk_main wc) t1 = (t2, Returned content)"
      and run2: "syncWorker client sys accountId config branch secrets workingDir t
               = upload content t2"
      by (auto elim: bind_returned)
    have t2: "uploaded_names t2 = uploaded_names t1"
      using readWorkerScript_names [where sys = sys
          and path = "workingDir @ ''/'' @ wk_main wc" and t = t1] r by simp
    from assms run2 have "snd (upload content t2) = Returned (Some res)"
      by simp
    then have "map_option workerName (Some res) = Some ?n \<and>
               uploaded_names (fst (upload content t2)) = uploaded_names t2 @ [?n]"
      unfolding upload_def by (rule uploadWorkerScript_returned)
    with run2 t0 t1 t2 show ?thesis
      by simp
  qed
qed

text \<open>
  C2, as claimed: the uploaded script is named from the artifact configuration's own base
  name (\<open>worker.name\<close>) plus the branch. The run below is the test
  \<open>should deploy to production with base worker name\<close>: project \<open>my-app\<close>, worker base name
  \<open>my-worker\<close>, production branch. The script is uploaded as \<open>my-app\<close>, not as the identity
  computed from \<open>my-worker\<close>.
\<close>

theorem syncWorker_base_name_counterexample:
  "uploaded_names
     (fst (syncWorker absentClient mockSystem ''account-id''
             (workerTestConfig None) ''main'' None ''/working'' []))
     = [''my-app''] \<and>
   uploaded_names
     (fst (syncWorker absentClient mockSystem ''account-id''
             (workerTestConfig None) ''main'' None ''/working'' []))
     \<noteq> [getWorkerName asciiLowerCase ''my-worker'' ''main'' ''main'']"
  by (simp add: syncWorker_def readWorkerScript_def uploadWorkerScript_def io_apply
        absentClient_def directUploadClient_def noSourceClient_def refetchClient_def mockClient_def mockSystem_def workerTestConfig_def isProduction_def getWorkerName_def
        Let_def)

text \<open>
  C2, amended. For every published artifact the deployment identity is derived from the
  shared project display name: when publication returns a result, the one script it
  uploaded is named \<open>getWorkerName(config.name, branch, config.production_branch)\<close>, which is also
  the name it returns; and the artifact configuration's own base name is never read, so
  changing it changes nothing.
\<close>

theorem syncWorker_identity_from_project_name:
  assumes "snd (syncWorker client sys accountId config branch secrets workingDir t)
             = Returned (Some res)"
  shows "workerName res = getWorkerName (sys_toLowerCase sys) (cfg_name config) branch
             (cfg_production_branch config) \<and>
         uploaded_names (fst (syncWorker client sys accountId config branch secrets workingDir t))
           = uploaded_names t
             @ [getWorkerName (sys_toLowerCase sys) (cfg_name config) branch
             (cfg_production_branch config)] \<and>
         syncWorker client sys accountId
           (config\<lparr>cfg_worker := map_option (\<lambda>wc. wc\<lparr>wk_name := x\<rparr>) (cfg_worker config)\<rparr>)
           branch secrets workingDir
           = syncWorker client sys accountId config branch secrets workingDir"
  using syncWorker_returned [OF assms] syncWorker_ignores_wk_name
  by simp

theorem syncWorker_identity_from_project_name_witness:
  "snd (syncWorker absentClient mockSystem ''account-id''
          (workerTestConfig None) ''feature/auth'' None ''/working'' [])
     = Returned (Some \<lparr>workerName = ''feature-auth-my-app'',
                       workerUrl = ''https://feature-auth-my-app.myaccount.workers.dev''\<rparr>) \<and>
   uploaded_names
     (fst (syncWorker absentClient mockSystem ''account-id''
             (workerTestConfig None) ''feature/auth'' None ''/working'' []))
     = [getWorkerName asciiLowerCase ''my-app'' ''feature/auth'' ''main'']"
proof -
  have r: "snd (syncWorker absentClient mockSystem ''account-id''
                  (workerTestConfig None) ''feature/auth'' None ''/working'' [])
             = Returned (Some \<lparr>workerName = ''feature-auth-my-app'',
                      workerUrl = ''https://feature-auth-my-app.myaccount.workers.dev''\<rparr>)"
    by (simp add: syncWorker_def readWorkerScript_def uploadWorkerScript_def io_apply
          absentClient_def directUploadClient_def noSourceClient_def refetchClient_def mockClient_def mockSystem_def workerTestConfig_def isProduction_def
          getWorkerName_def normalizeBranchName_def asciiLowerCase_def asciiLowerChar_def char_of_eq_iff
          less_eq_char_def Let_def)
  have c: "cfg_name (workerTestConfig None) = ''my-app''"
    "cfg_production_branch (workerTestConfig None) = ''main''"
    "sys_toLowerCase mockSystem = asciiLowerCase"
    by (simp_all add: workerTestConfig_def mockSystem_def)
  show ?thesis
    using syncWorker_identity_from_project_name [OF r] r
    by (simp add: c)
qed

text \<open>
  C8. When the artifact configuration has \<open>deploy_previews\<close> explicitly \<open>false\<close> and the
  branch is not the production branch, publication returns absent as a normal result
  after one log line, and has no side effect: no build command is run, no file is read,
  nothing is uploaded.
\<close>

theorem syncWorker_skips_preview:
  assumes "cfg_worker config = Some workerConfig"
    and "wk_deploy_previews workerConfig = Some False"
    and "branch \<noteq> cfg_production_branch config"
  shows "syncWorker client sys accountId config branch secrets workingDir t
           = (t @ [ConsoleLog ''\<newline>Preview worker deployments disabled, skipping.''],
              Returned None) \<and>
         side_effects (fst (syncWorker client sys accountId config branch secrets workingDir t))
           = side_effects t"
  using assms
  by (simp add: syncWorker_def isProduction_def io_apply)

theorem syncWorker_skips_preview_witness:
  "syncWorker absentClient mockSystem ''account-id''
     (workerTestConfig (Some False)) ''feature/auth'' None ''/working'' []
     = ([ConsoleLog ''\<newline>Preview worker deployments disabled, skipping.''], Returned None) \<and>
   side_effects
     (fst (syncWorker absentClient mockSystem ''account-id''
             (workerTestConfig (Some False)) ''feature/auth'' None ''/working'' []))
     = []"
proof -
  have w: "cfg_worker (workerTestConfig (Some False))
             = Some \<lparr>wk_name = Some ''my-worker'', wk_main = ''worker/worker.js'',
                     wk_build_command = None, wk_compatibility_date = Some ''2024-01-01'',
                     wk_compatibility_flags = None, wk_deploy_previews = Some False,
                     wk_bindings = None\<rparr>"
    by (simp add: workerTestConfig_def)
  have p: "wk_deploy_previews
             \<lparr>wk_name = Some ''my-worker'', wk_main = ''worker/worker.js'',
              wk_build_command = None, wk_compatibility_date = Some ''2024-01-01'',
              wk_compatibility_flags = None, wk_deploy_previews = Some False,
              wk_bindings = None\<rparr> = Some False"
    by simp
  have b: "''feature/auth'' \<noteq> cfg_production_branch (workerTestConfig (Some False))"
    by (simp add: workerTestConfig_def)
  show ?thesis
    using syncWorker_skips_preview
      [where client = absentClient and sys = mockSystem
         and accountId = "''account-id''" and secrets = None and workingDir = "''/working''"
         and t = "[]", OF w p b]
    by simp
qed

end
